theory Spec2Isabelle
  imports Main "HOL-Library.Word" "HOL-Library.Monad_Syntax"
begin

unbundle bit_operations_syntax

section \<open>Bytes, C strings and checked memory accesses\<close>

text \<open>
  A \<open>char\<close> is a byte, \<open>size_t\<close> is the 64-bit unsigned type of an LP64 platform and
  \<open>unsigned int\<close> is 32 bits wide. A buffer that C passes as a pointer together with its
  length (\<open>char *data, size_t len\<close>) is the list of its bytes, and the pointer
  \<open>&data[offset]\<close> with the remaining length \<open>len - offset\<close> is \<open>drop offset data\<close>.
  A result of type \<open>option\<close> is \<open>None\<close> where the C program would access a byte outside
  the object it indexes (undefined behaviour).
\<close>

type_synonym byte = "8 word"
type_synonym size_t = "64 word"

text \<open>
  A C string argument (\<open>const char *search\<close>) is given by the bytes stored at the pointer;
  the memory holds these bytes followed by a terminating NUL, so \<open>strlen\<close> stops at the
  first zero byte or at the end of the list.
\<close>

definition strlen :: "byte list \<Rightarrow> nat" where
  "strlen s = length (takeWhile (\<lambda>b. b \<noteq> 0) s)"

definition char_at :: "byte list \<Rightarrow> nat \<Rightarrow> byte" where
  "char_at s k = (s @ [0]) ! k"

definition peek :: "byte list \<Rightarrow> nat \<Rightarrow> byte option" where
  "peek buf i = (if i < length buf then Some (buf ! i) else None)"

definition load :: "byte list \<Rightarrow> nat \<Rightarrow> nat \<Rightarrow> byte list option" where
  "load buf off n = (if off + n \<le> length buf then Some (take n (drop off buf)) else None)"

definition store :: "byte list \<Rightarrow> nat \<Rightarrow> byte list \<Rightarrow> byte list option" where
  "store buf off src =
     (if off + length src \<le> length buf
      then Some (take off buf @ src @ drop (off + length src) buf)
      else None)"

text \<open>
  The allocator is a parameter of the model: \<open>alloc_ok h k n\<close> says whether the \<open>k\<close>-th
  allocation request of the run, asking for \<open>n\<close> bytes, succeeds, and \<open>junk h k j\<close> is the
  indeterminate byte found at index \<open>j\<close> of the block it returns. \<open>realloc\<close> keeps the old
  contents up to the smaller of the two sizes.
\<close>

record heap =
  alloc_ok :: "nat \<Rightarrow> nat \<Rightarrow> bool"
  junk :: "nat \<Rightarrow> nat \<Rightarrow> byte"

definition malloc :: "heap \<Rightarrow> nat \<Rightarrow> nat \<Rightarrow> byte list option" where
  "malloc h k n = (if alloc_ok h k n then Some (map (junk h k) [0..<n]) else None)"

definition realloc :: "heap \<Rightarrow> nat \<Rightarrow> byte list \<Rightarrow> nat \<Rightarrow> byte list option" where
  "realloc h k old n =
     (if alloc_ok h k n then Some (take n old @ map (junk h k) [length old..<n]) else None)"

section \<open>common.c: the string scanner and substitution engine\<close>

subsection \<open>count_occurrences\<close>

text \<open>
  Returns the pair (\<open>count\<close>, \<open>*strLen\<close>). The counter is an \<open>unsigned int\<close>, so its
  increment wraps at \<open>2 ^ 32\<close>.
\<close>

function count_occurrences_loop ::
  "byte list \<Rightarrow> byte list \<Rightarrow> nat \<Rightarrow> nat \<Rightarrow> nat \<Rightarrow> nat \<Rightarrow> nat \<times> nat" where
  "count_occurrences_loop str word wordLen strLen c count =
     (if strLen < length str then
        (if str ! strLen = 0 then (count, strLen)
         else
           (let c1 = (if str ! strLen = char_at word c then c + 1 else 0) in
            if c1 \<ge> wordLen
            then count_occurrences_loop str word wordLen (strLen + 1) 0 ((count + 1) mod 2 ^ 32)
            else count_occurrences_loop str word wordLen (strLen + 1) c1 count))
      else (count, strLen))"
  by pat_completeness auto
termination
  by (relation "measure (\<lambda>(str, word, wordLen, strLen, c, count). length str - strLen)") auto

definition count_occurrences :: "byte list \<Rightarrow> byte list \<Rightarrow> nat \<Rightarrow> nat \<times> nat" where
  "count_occurrences str word wordLen = count_occurrences_loop str word wordLen 0 0 0"

subsection \<open>available_length\<close>

function available_length_loop :: "byte list \<Rightarrow> nat \<Rightarrow> byte \<Rightarrow> nat" where
  "available_length_loop str i lc =
     (if i < length str then
        (if str ! i \<noteq> 0 \<and> lc = 0 then i - 1
         else available_length_loop str (i + 1) (str ! i))
      else (if length str = 0 then 2 ^ 64 - 1 else length str - 1))"
  by pat_completeness auto
termination
  by (relation "measure (\<lambda>(str, i, lc). length str - i)") auto

definition available_length :: "byte list \<Rightarrow> nat" where
  "available_length str = available_length_loop str 0 1"

subsection \<open>string_substitute\<close>

text \<open>
  \<open>output\<close> is the scratch block, \<open>input\<close> the bytes from the start of the run on. The
  result is the scratch block after the loop. \<open>&input[i] - (c-1)\<close> points before the start
  of \<open>input\<close> when \<open>c - 1 > i\<close>.
\<close>

function string_substitute_loop ::
  "byte list \<Rightarrow> byte list \<Rightarrow> byte list \<Rightarrow> byte list \<Rightarrow> nat \<Rightarrow> nat \<Rightarrow> nat \<Rightarrow>
   nat \<Rightarrow> nat \<Rightarrow> nat \<Rightarrow> byte list option" where
  "string_substitute_loop output input search replace searchLen replaceLen inputLen i j c =
     (if i < inputLen then
        (case peek input i of
           None \<Rightarrow> None
         | Some x \<Rightarrow>
            (case (if x = char_at search c then Some (output, j, c + 1)
                   else (if c > i then None
                         else do {
                           bs \<leftarrow> load input (i - c) (c + 1);
                           out1 \<leftarrow> store output j bs;
                           Some (out1, j + (c + 1), 0)
                         })) of
               None \<Rightarrow> None
             | Some (out1, j1, c1) \<Rightarrow>
                (if c1 \<ge> searchLen then
                   (case load replace 0 replaceLen of
                      None \<Rightarrow> None
                    | Some rs \<Rightarrow>
                       (case store out1 j1 rs of
                          None \<Rightarrow> None
                        | Some out2 \<Rightarrow>
                            string_substitute_loop out2 input search replace searchLen
                              replaceLen inputLen (i + 1) (j1 + replaceLen) 0))
                 else string_substitute_loop out1 input search replace searchLen
                        replaceLen inputLen (i + 1) j1 c1)))
      else Some output)"
  by pat_completeness auto
termination
  by (relation "measure (\<lambda>(output, input, search, replace, searchLen, replaceLen,
                            inputLen, i, j, c). inputLen - i)") auto

definition string_substitute ::
  "byte list \<Rightarrow> byte list \<Rightarrow> byte list \<Rightarrow> byte list \<Rightarrow> nat \<Rightarrow> nat \<Rightarrow> nat \<Rightarrow>
   byte list option" where
  "string_substitute output input search replace searchLen replaceLen inputLen =
     string_substitute_loop output input search replace searchLen replaceLen inputLen 0 0 0"

subsection \<open>search_and_replace\<close>

text \<open>
  The local variables of the function that live across iterations. \<open>sr_buffer\<close> is
  \<open>None\<close> for the NULL pointer; \<open>sr_nalloc\<close> counts the allocation requests made so far.
\<close>

record sr_state =
  sr_data :: "byte list"
  sr_c :: nat
  sr_offset :: nat
  sr_state :: nat
  sr_ret :: int
  sr_buffer :: "byte list option"
  sr_nalloc :: nat

text \<open>
  \<open>newLen = curLen + count * (replaceLen - searchLen)\<close> in \<open>size_t\<close> arithmetic: the
  difference wraps whenever the replacement is the shorter string.
\<close>

definition new_length :: "nat \<Rightarrow> nat \<Rightarrow> nat \<Rightarrow> nat \<Rightarrow> nat" where
  "new_length curLen count replaceLen searchLen =
     unat ((of_nat curLen :: size_t) + of_nat count * (of_nat replaceLen - of_nat searchLen))"

text \<open>The body of \<open>if (c >= searchLen)\<close>, entered with the match just found.\<close>

definition sr_on_match ::
  "heap \<Rightarrow> byte list \<Rightarrow> byte list \<Rightarrow> nat \<Rightarrow> nat \<Rightarrow> sr_state \<Rightarrow> sr_state option" where
  "sr_on_match h search replace searchLen replaceLen s0 =
     (let s = s0\<lparr>sr_c := 0, sr_ret := 0, sr_state := 1\<rparr>;
          str = drop (sr_offset s) (sr_data s);
          (count, curLen) = count_occurrences str search searchLen;
          newLen = new_length curLen count replaceLen searchLen;
          available = available_length str
      in
        if newLen > available then Some (s\<lparr>sr_ret := 2\<rparr>)
        else
          (case (case sr_buffer s of
                   Some old \<Rightarrow> realloc h (sr_nalloc s) old newLen
                 | None \<Rightarrow> malloc h (sr_nalloc s) newLen) of
             None \<Rightarrow> Some (s\<lparr>sr_buffer := None, sr_nalloc := sr_nalloc s + 1\<rparr>)
           | Some buf \<Rightarrow>
               do {
                 out \<leftarrow> string_substitute buf str search replace searchLen replaceLen curLen;
                 bs \<leftarrow> load out 0 newLen;
                 data1 \<leftarrow> store (sr_data s) (sr_offset s) bs;
                 data2 \<leftarrow> store data1 (sr_offset s + newLen) (replicate (available - newLen) 0);
                 Some (s\<lparr>sr_data := data2, sr_buffer := Some out,
                         sr_nalloc := sr_nalloc s + 1\<rparr>)
               }))"

text \<open>One iteration of the \<open>for\<close> loop at index \<open>i\<close>; \<open>continue\<close> returns the state.\<close>

definition sr_body ::
  "heap \<Rightarrow> byte list \<Rightarrow> byte list \<Rightarrow> nat \<Rightarrow> nat \<Rightarrow> nat \<Rightarrow> sr_state \<Rightarrow> sr_state option" where
  "sr_body h search replace searchLen replaceLen i s =
     (case peek (sr_data s) i of
        None \<Rightarrow> None
      | Some d \<Rightarrow>
          if sr_state s = 0 \<and> d = 0 then Some s
          else if sr_state s = 1 then Some (if d = 0 then s\<lparr>sr_state := 0\<rparr> else s)
          else
            (let s1 = (if sr_state s = 0 then s\<lparr>sr_offset := i, sr_state := 2\<rparr>
                       else if d = 0 then s\<lparr>sr_c := 0, sr_state := 0\<rparr>
                       else s);
                 s2 = (if d = char_at search (sr_c s1) then s1\<lparr>sr_c := sr_c s1 + 1\<rparr>
                       else s1\<lparr>sr_c := 0\<rparr>)
             in if sr_c s2 \<ge> searchLen
                then sr_on_match h search replace searchLen replaceLen s2
                else Some s2))"

function sr_loop ::
  "heap \<Rightarrow> byte list \<Rightarrow> byte list \<Rightarrow> nat \<Rightarrow> nat \<Rightarrow> nat \<Rightarrow> nat \<Rightarrow> sr_state \<Rightarrow>
   sr_state option" where
  "sr_loop h search replace searchLen replaceLen len i s =
     (if i < len then
        (case sr_body h search replace searchLen replaceLen i s of
           None \<Rightarrow> None
         | Some s1 \<Rightarrow> sr_loop h search replace searchLen replaceLen len (i + 1) s1)
      else Some s)"
  by pat_completeness auto
termination
  by (relation "measure (\<lambda>(h, search, replace, searchLen, replaceLen, len, i, s). len - i)")
     auto

text \<open>The result is the buffer as the function leaves it and the returned code.\<close>

definition search_and_replace ::
  "heap \<Rightarrow> byte list \<Rightarrow> byte list \<Rightarrow> byte list \<Rightarrow> (byte list \<times> int) option" where
  "search_and_replace h data search replace =
     (let searchLen = strlen search;
          replaceLen = strlen replace;
          len = length data
      in map_option (\<lambda>s. (sr_data s, sr_ret s))
           (sr_loop h search replace searchLen replaceLen len 0
              \<lparr>sr_data = data, sr_c = 0, sr_offset = 0, sr_state = 0, sr_ret = 1,
               sr_buffer = None, sr_nalloc = 0\<rparr>))"

subsection \<open>search_and_replace_exact\<close>

record sx_state =
  sx_data :: "byte list"
  sx_c :: nat
  sx_offset :: nat
  sx_state :: nat
  sx_ret :: int

text \<open>The body of \<open>if (c > searchLen && data[i] == 0)\<close>.\<close>

definition sx_on_match :: "byte list \<Rightarrow> nat \<Rightarrow> sx_state \<Rightarrow> sx_state option" where
  "sx_on_match replace replaceLen s0 =
     (let s = s0\<lparr>sx_c := 0, sx_ret := 0, sx_state := 0\<rparr>;
          available = available_length (drop (sx_offset s) (sx_data s))
      in
        if replaceLen > available then Some (s\<lparr>sx_ret := 2\<rparr>)
        else
          do {
            rs \<leftarrow> load replace 0 replaceLen;
            data1 \<leftarrow> store (sx_data s) (sx_offset s) rs;
            data2 \<leftarrow> store data1 (sx_offset s + replaceLen)
                       (replicate (available - replaceLen) 0);
            Some (s\<lparr>sx_data := data2\<rparr>)
          })"

definition sx_body ::
  "byte list \<Rightarrow> byte list \<Rightarrow> nat \<Rightarrow> nat \<Rightarrow> nat \<Rightarrow> sx_state \<Rightarrow> sx_state option" where
  "sx_body search replace searchLen replaceLen i s =
     (case peek (sx_data s) i of
        None \<Rightarrow> None
      | Some d \<Rightarrow>
          if sx_state s = 0 \<and> d = 0 then Some s
          else if sx_state s = 1 then Some (if d = 0 then s\<lparr>sx_state := 0\<rparr> else s)
          else
            (let s1 = (if sx_state s = 0 then s\<lparr>sx_offset := i, sx_state := 2\<rparr> else s);
                 s2 = (if d = char_at search (sx_c s1) then s1\<lparr>sx_c := sx_c s1 + 1\<rparr>
                       else s1\<lparr>sx_c := 0, sx_state := 1\<rparr>)
             in if sx_c s2 > searchLen \<and> d = 0
                then sx_on_match replace replaceLen s2
                else Some s2))"

function sx_loop ::
  "byte list \<Rightarrow> byte list \<Rightarrow> nat \<Rightarrow> nat \<Rightarrow> nat \<Rightarrow> nat \<Rightarrow> sx_state \<Rightarrow> sx_state option" where
  "sx_loop search replace searchLen replaceLen len i s =
     (if i < len then
        (case sx_body search replace searchLen replaceLen i s of
           None \<Rightarrow> None
         | Some s1 \<Rightarrow> sx_loop search replace searchLen replaceLen len (i + 1) s1)
      else Some s)"
  by pat_completeness auto
termination
  by (relation "measure (\<lambda>(search, replace, searchLen, replaceLen, len, i, s). len - i)") auto

definition search_and_replace_exact ::
  "byte list \<Rightarrow> byte list \<Rightarrow> byte list \<Rightarrow> (byte list \<times> int) option" where
  "search_and_replace_exact data search replace =
     (let searchLen = strlen search;
          replaceLen = strlen replace;
          len = length data
      in map_option (\<lambda>s. (sx_data s, sx_ret s))
           (sx_loop search replace searchLen replaceLen len 0
              \<lparr>sx_data = data, sx_c = 0, sx_offset = 0, sx_state = 0, sx_ret = 1\<rparr>))"


section \<open>Files\<close>

text \<open>
  A \<open>FILE *\<close> opened on a regular file is the list of the file's bytes and a position.
  \<open>long\<close> is the 64-bit signed type of an LP64 platform, and the host is little-endian.
  Reads fail only by reaching the end of the file.
\<close>

record FILE =
  f_bytes :: "byte list"
  f_pos :: nat

datatype whence = SEEK_SET | SEEK_CUR

text \<open>
  \<open>fseek\<close> returns nonzero (here \<open>None\<close>) when the target position is negative or
  does not fit a \<open>long\<close>; a position past the end of the file is accepted.
\<close>

definition fseek :: "FILE \<Rightarrow> int \<Rightarrow> whence \<Rightarrow> FILE option" where
  "fseek f offset w =
     (let target = (case w of SEEK_SET \<Rightarrow> offset | SEEK_CUR \<Rightarrow> int (f_pos f) + offset)
      in if target < 0 \<or> target \<ge> 2 ^ 63 then None else Some (f\<lparr>f_pos := nat target\<rparr>))"

text \<open>
  \<open>fread (ptr, size, nmemb, f)\<close> gives the number of complete items read, the bytes stored
  at \<open>ptr\<close> and the file after the read; the position advances by the bytes read.
\<close>

definition fread :: "FILE \<Rightarrow> nat \<Rightarrow> nat \<Rightarrow> nat \<times> byte list \<times> FILE" where
  "fread f sz nmemb =
     (let got = take (sz * nmemb) (drop (f_pos f) (f_bytes f))
      in (if sz = 0 then 0 else length got div sz, got,
          f\<lparr>f_pos := f_pos f + length got\<rparr>))"

text \<open>\<open>advance_and_read\<close> is defined with the same text in pefile.c and in elffile.c.\<close>

definition advance_and_read :: "FILE \<Rightarrow> nat \<Rightarrow> int \<Rightarrow> (byte list \<times> FILE) option" where
  "advance_and_read f sz offset =
     (case fseek f offset SEEK_CUR of
        None \<Rightarrow> None
      | Some f1 \<Rightarrow>
          (case fread f1 sz 1 of (n, bs, f2) \<Rightarrow> if n \<noteq> 1 then None else Some (bs, f2)))"

text \<open>The value of an unsigned integer object stored in little-endian byte order, and back.\<close>

fun le_word :: "byte list \<Rightarrow> 'a::len word" where
  "le_word [] = 0"
| "le_word (b # bs) = ucast b + 256 * le_word bs"


text \<open>
  \<open>strncmp\<close>: a \<open>char\<close> array is given by its bytes, a C string by its bytes before the
  terminating NUL, so the byte after the end of the list is the NUL.
\<close>

function strncmp :: "byte list \<Rightarrow> byte list \<Rightarrow> nat \<Rightarrow> int" where
  "strncmp s1 s2 n =
     (if n = 0 then 0
      else
        (let a = (case s1 of [] \<Rightarrow> 0 | x # _ \<Rightarrow> x);
             b = (case s2 of [] \<Rightarrow> 0 | y # _ \<Rightarrow> y)
         in if a \<noteq> b then uint a - uint b
            else if a = 0 then 0
            else strncmp (tl s1) (tl s2) (n - 1)))"
  by pat_completeness auto
termination
  by (relation "measure (\<lambda>(s1, s2, n). n)") auto

text \<open>
  The outcome of a navigator: undefined behaviour, a nonzero return code, or the return
  code 0 together with the values stored through the output pointers.
\<close>

datatype 'a outcome = Undefined | Failed int | Success 'a

section \<open>pefile.c: the PE navigator\<close>

definition PE_SIGNATURE :: "byte list" where
  "PE_SIGNATURE = [0x50, 0x45, 0x00, 0x00]"

text \<open>
  The \<open>for\<close> loop over the section table; the result is the pair
  (\<open>*sectionStringsAddress\<close>, \<open>*sectionStringsLen\<close>) when the loop is left.
\<close>

function pe_section_loop ::
  "FILE \<Rightarrow> byte list \<Rightarrow> nat \<Rightarrow> nat \<Rightarrow> 32 word \<Rightarrow> 32 word \<Rightarrow> (32 word \<times> 32 word) outcome" where
  "pe_section_loop f section sectionNums i address len =
     (if i < sectionNums then
        (case fread f 1 8 of
           (n, sectionName, f1) \<Rightarrow>
             if n = 8 \<and> strncmp section sectionName 8 = 0 then
               (case advance_and_read f1 4 8 of
                  None \<Rightarrow> Failed 8
                | Some (lenBytes, f2) \<Rightarrow>
                    (case fread f2 4 1 of
                       (n2, addrBytes, f3) \<Rightarrow>
                         if n2 \<noteq> 1 then Failed 8
                         else Success (le_word addrBytes, le_word lenBytes)))
             else
               (case fseek f1 32 SEEK_CUR of
                  None \<Rightarrow> Failed 8
                | Some f2 \<Rightarrow> pe_section_loop f2 section sectionNums (i + 1) address len))
      else Success (address, len))"
  by pat_completeness auto
termination
  by (relation "measure (\<lambda>(f, section, sectionNums, i, address, len). sectionNums - i)") auto

definition pe_find_strings_section :: "FILE \<Rightarrow> byte list \<Rightarrow> (32 word \<times> 32 word) outcome" where
  "pe_find_strings_section inp section =
     (case fseek inp 0x3c SEEK_SET of
        None \<Rightarrow> Failed 5
      | Some f1 \<Rightarrow>
     (case fread f1 4 1 of (n, hdr, f2) \<Rightarrow>
        if n \<noteq> 1 then Failed 5 else
     (case fseek f2 (uint (le_word hdr :: 32 word)) SEEK_SET of
        None \<Rightarrow> Failed 5
      | Some f3 \<Rightarrow>
     (case fread f3 1 4 of (n, signature, f4) \<Rightarrow>
        if n \<noteq> 4 then Failed 5
        else if strncmp signature PE_SIGNATURE 4 \<noteq> 0 then Failed 4 else
     (case advance_and_read f4 2 2 of
        None \<Rightarrow> Failed 5
      | Some (numBytes, f5) \<Rightarrow>
     (case advance_and_read f5 2 12 of
        None \<Rightarrow> Failed 5
      | Some (optBytes, f6) \<Rightarrow>
     (case fseek f6 (uint (le_word optBytes :: 16 word) + 2) SEEK_CUR of
        None \<Rightarrow> Failed 6
      | Some f7 \<Rightarrow>
     (case pe_section_loop f7 section (unat (le_word numBytes :: 16 word)) 0 0 0 of
        Undefined \<Rightarrow> Undefined
      | Failed e \<Rightarrow> Failed e
      | Success (address, len) \<Rightarrow>
          if address = 0 then Failed 9 else Success (address, len)))))))))"

section \<open>elffile.c (src/unnamed/part_000): the ELF navigator\<close>







text \<open>
  The union \<open>Word\<close> is its eight bytes of storage; both members start at the first byte.
\<close>

type_synonym Word = "byte list"








text \<open>
  \<open>read_word\<close> declares \<open>const size_t r;\<close> without an initialiser and tests \<open>r\<close>, not
  \<open>class\<close>. The value found in \<open>r\<close> is a parameter of the model. The result is the value
  returned by \<open>fread\<close>, the union after the read and the file.
\<close>

definition read_word :: "FILE \<Rightarrow> Word \<Rightarrow> byte \<Rightarrow> size_t \<Rightarrow> nat \<times> Word \<times> FILE" where
  "read_word f ptr cls r =
     (if r = 1
      then (case fread f 4 1 of (n, bs, f1) \<Rightarrow> (n, bs @ drop (length bs) ptr, f1))
      else (case fread f 8 1 of (n, bs, f1) \<Rightarrow> (n, bs @ drop (length bs) ptr, f1)))"









section \<open>Notions used to state the properties\<close>

text \<open>
  The printable length of the run that starts at \<open>off\<close>: the number of bytes before the
  first zero byte at or after \<open>off\<close>.
\<close>

definition printable_length :: "byte list \<Rightarrow> nat \<Rightarrow> nat" where
  "printable_length data off = length (takeWhile (\<lambda>b. b \<noteq> 0) (drop off data))"

text \<open>
  Substring replacement as the specification words it (section 4.5, substring mode):
  every left-to-right, non-overlapping occurrence of \<open>search\<close> in the run is replaced
  and the bytes between occurrences are copied. It is compared with the code below.
\<close>

function spec_substitute :: "byte list \<Rightarrow> byte list \<Rightarrow> byte list \<Rightarrow> byte list" where
  "spec_substitute search replace [] = []"
| "spec_substitute search replace (x # xs) =
     (if search \<noteq> [] \<and> take (length search) (x # xs) = search
      then replace @ spec_substitute search replace (drop (length search) (x # xs))
      else x # spec_substitute search replace xs)"
  by pat_completeness auto
termination
  by (relation "measure (\<lambda>(search, replace, run). length run)") auto






section \<open>Concrete inputs\<close>

text \<open>
  The bytes of an ASCII string literal, and the allocator that never fails and leaves
  the byte \<open>b\<close> everywhere in the blocks it returns.
\<close>

definition bytes_of :: "string \<Rightarrow> byte list" where
  "bytes_of s = map (\<lambda>ch. of_nat (of_char ch)) s"

definition heap_filled :: "byte \<Rightarrow> heap" where
  "heap_filled b = \<lparr>alloc_ok = (\<lambda>k n. True), junk = (\<lambda>k j. b)\<rparr>"

text \<open>
  A PE file with one section header: the signature \<open>sig\<close> at offset 64, no optional
  header, and a section \<open>name\<close> with the raw-data length \<open>len\<close> and pointer \<open>addr\<close>.
\<close>

definition pe_file :: "byte list \<Rightarrow> byte list \<Rightarrow> byte list \<Rightarrow> byte list \<Rightarrow> byte list" where
  "pe_file sig name len addr =
     [0x4d, 0x5a] @ replicate 58 0 @ [0x40, 0, 0, 0] @ sig @ [0, 0] @ [1, 0] @ replicate 12 0
     @ [0, 0] @ [0, 0] @ name @ replicate 8 0 @ len @ addr @ replicate 16 0"



section \<open>Properties of the substitution engine\<close>

declare count_occurrences_loop.simps [simp del]
declare available_length_loop.simps [simp del]
declare string_substitute_loop.simps [simp del]
declare sr_loop.simps [simp del]
declare sx_loop.simps [simp del]

text \<open>The equations that evaluate the engine on a concrete buffer.\<close>

lemmas sr_eval = search_and_replace_def search_and_replace_exact_def sr_loop.simps sx_loop.simps
  sr_body_def sx_body_def sr_on_match_def sx_on_match_def count_occurrences_def
  count_occurrences_loop.simps available_length_def available_length_loop.simps
  string_substitute_def string_substitute_loop.simps new_length_def
  strlen_def char_at_def peek_def load_def store_def malloc_def realloc_def
  bytes_of_def heap_filled_def printable_length_def upt_conv_Cons Let_def

subsection \<open>The end-to-end scenarios of the specification\<close>

text \<open>
  The engine on the buffer \<open>hello\<close>, zero, \<open>world\<close> and three zero bytes (14 bytes):
  a shrinking substring replacement, an exact replacement of equal length, a search
  string that does not occur and a replacement that does not fit.
\<close>

lemma end_to_end_scenarios:
  "search_and_replace (heap_filled 0) (bytes_of ''hello'' @ [0] @ bytes_of ''world'' @ [0, 0, 0])
     (bytes_of ''hello'') (bytes_of ''hi'')
     = Some (bytes_of ''hi'' @ [0, 0, 0, 0] @ bytes_of ''world'' @ [0, 0, 0], 0)"
  "search_and_replace_exact (bytes_of ''hello'' @ [0] @ bytes_of ''world'' @ [0, 0, 0])
     (bytes_of ''world'') (bytes_of ''globe'')
     = Some (bytes_of ''hello'' @ [0] @ bytes_of ''globe'' @ [0, 0, 0], 0)"
  "search_and_replace (heap_filled 0) (bytes_of ''hello'' @ [0] @ bytes_of ''world'' @ [0, 0, 0])
     (bytes_of ''x'') (bytes_of ''y'')
     = Some (bytes_of ''hello'' @ [0] @ bytes_of ''world'' @ [0, 0, 0], 1)"
  "search_and_replace (heap_filled 0) (bytes_of ''hello'' @ [0] @ bytes_of ''world'' @ [0, 0, 0])
     (bytes_of ''hello'') (bytes_of ''greetings'')
     = Some (bytes_of ''hello'' @ [0] @ bytes_of ''world'' @ [0, 0, 0], 2)"
  by (simp_all add: sr_eval)

subsection \<open>The result code 1 means that nothing was written\<close>

lemma sr_on_match_ret:
  "sr_on_match h search replace searchLen replaceLen s = Some s' \<Longrightarrow> sr_ret s' \<noteq> 1"
  by (auto simp: sr_on_match_def Let_def split: prod.splits if_splits option.splits bind_splits)

lemma sr_body_notfound:
  assumes "sr_body h search replace searchLen replaceLen i s = Some s'" and "sr_ret s' = 1"
  shows "sr_ret s = 1 \<and> sr_data s' = sr_data s"
  using assms
  by (auto simp: sr_body_def Let_def split: option.splits if_splits dest: sr_on_match_ret)

lemma sr_loop_notfound:
  "sr_loop h search replace searchLen replaceLen len i s = Some s' \<Longrightarrow> sr_ret s' = 1 \<Longrightarrow>
   sr_ret s = 1 \<and> sr_data s' = sr_data s"
proof (induction h search replace searchLen replaceLen len i s rule: sr_loop.induct)
  case (1 h search replace searchLen replaceLen len i s)
  show ?case
  proof (cases "i < len")
    case False
    with "1.prems" show ?thesis by (simp add: sr_loop.simps)
  next
    case True
    with "1.prems" obtain s1 where b: "sr_body h search replace searchLen replaceLen i s = Some s1"
      and l: "sr_loop h search replace searchLen replaceLen len (i + 1) s1 = Some s'"
      by (auto simp: sr_loop.simps [of _ _ _ _ _ _ i] split: option.splits)
    from "1.IH" [OF True b l "1.prems"(2)] have "sr_ret s1 = 1 \<and> sr_data s' = sr_data s1" .
    with sr_body_notfound [OF b] show ?thesis by simp
  qed
qed

lemma sx_on_match_ret:
  "sx_on_match replace replaceLen s = Some s' \<Longrightarrow> sx_ret s' \<noteq> 1"
  by (auto simp: sx_on_match_def Let_def split: prod.splits if_splits option.splits bind_splits)

lemma sx_body_notfound:
  assumes "sx_body search replace searchLen replaceLen i s = Some s'" and "sx_ret s' = 1"
  shows "sx_ret s = 1 \<and> sx_data s' = sx_data s"
  using assms
  by (auto simp: sx_body_def Let_def split: option.splits if_splits dest: sx_on_match_ret)

lemma sx_loop_notfound:
  "sx_loop search replace searchLen replaceLen len i s = Some s' \<Longrightarrow> sx_ret s' = 1 \<Longrightarrow>
   sx_ret s = 1 \<and> sx_data s' = sx_data s"
proof (induction search replace searchLen replaceLen len i s rule: sx_loop.induct)
  case (1 search replace searchLen replaceLen len i s)
  show ?case
  proof (cases "i < len")
    case False
    with "1.prems" show ?thesis by (simp add: sx_loop.simps)
  next
    case True
    with "1.prems" obtain s1 where b: "sx_body search replace searchLen replaceLen i s = Some s1"
      and l: "sx_loop search replace searchLen replaceLen len (i + 1) s1 = Some s'"
      by (auto simp: sx_loop.simps [of _ _ _ _ _ i] split: option.splits)
    from "1.IH" [OF True b l "1.prems"(2)] have "sx_ret s1 = 1 \<and> sx_data s' = sx_data s1" .
    with sx_body_notfound [OF b] show ?thesis by simp
  qed
qed

text \<open>
  Claim C10. Whenever \<open>search_and_replace\<close> or \<open>search_and_replace_exact\<close> returns the
  code 1 (the search string was not found), the buffer it leaves is the buffer it was
  given, byte for byte; this holds for every buffer, every search and replacement string
  and every behaviour of the allocator.
\<close>

theorem not_found_leaves_buffer_unchanged:
  assumes "search_and_replace h data search replace = Some (data', 1)
           \<or> search_and_replace_exact data search replace = Some (data', 1)"
  shows "data' = data"
  using assms
  by (auto simp: search_and_replace_def search_and_replace_exact_def Let_def
           dest!: sr_loop_notfound sx_loop_notfound)

theorem not_found_leaves_buffer_unchanged_witness:
  "search_and_replace (heap_filled 0)
     (bytes_of ''hello'' @ [0] @ bytes_of ''world'' @ [0, 0, 0]) (bytes_of ''x'') (bytes_of ''y'')
   = Some ([104, 101, 108, 108, 111, 0, 119, 111, 114, 108, 100, 0, 0, 0], 1)
   \<and> search_and_replace_exact
     (bytes_of ''hello'' @ [0] @ bytes_of ''world'' @ [0, 0, 0]) (bytes_of ''x'') (bytes_of ''y'')
   = Some ([104, 101, 108, 108, 111, 0, 119, 111, 114, 108, 100, 0, 0, 0], 1)
   \<and> [104, 101, 108, 108, 111, 0, 119, 111, 114, 108, 100, 0, 0, 0]
     = bytes_of ''hello'' @ [0] @ bytes_of ''world'' @ [0, 0, 0]"
proof -
  have a: "search_and_replace (heap_filled 0)
     (bytes_of ''hello'' @ [0] @ bytes_of ''world'' @ [0, 0, 0]) (bytes_of ''x'') (bytes_of ''y'')
   = Some ([104, 101, 108, 108, 111, 0, 119, 111, 114, 108, 100, 0, 0, 0], 1)"
    by (simp add: sr_eval)
  have b: "search_and_replace_exact
     (bytes_of ''hello'' @ [0] @ bytes_of ''world'' @ [0, 0, 0]) (bytes_of ''x'') (bytes_of ''y'')
   = Some ([104, 101, 108, 108, 111, 0, 119, 111, 114, 108, 100, 0, 0, 0], 1)"
    by (simp add: sr_eval)
  from not_found_leaves_buffer_unchanged [OF disjI1, OF a] a b show ?thesis
    by simp
qed

subsection \<open>Every access stays inside the buffer\<close>

lemma store_length: "store buf off src = Some buf' \<Longrightarrow> length buf' = length buf"
  by (auto simp: store_def split: if_splits)























subsection \<open>A rewritten run stays inside its available room\<close>












subsection \<open>Inputs on which the engine departs from the specification\<close>

text \<open>
  Claim C1. The substring scanner restarts its match counter at a mismatching byte
  without comparing that byte with the first byte of the pattern, so in the run \<open>aab\<close>
  it does not find the occurrence of \<open>ab\<close> at index 1: the buffer is left as it was and
  the result is 1 (not found), where the specification's replacement gives \<open>ax\<close>.
\<close>

theorem substring_scan_misses_occurrence:
  "search_and_replace (heap_filled 0) (bytes_of ''aab'' @ [0]) (bytes_of ''ab'') (bytes_of ''x'')
     = Some (bytes_of ''aab'' @ [0], 1)
   \<and> spec_substitute (bytes_of ''ab'') (bytes_of ''x'') (bytes_of ''aab'') = bytes_of ''ax''"
  by (simp add: sr_eval)

text \<open>
  Claim C2. A run whose replacement does not fit sets the result to 2, but the next
  match sets it to 0 again: with \<open>ab\<close> replaced by \<open>xyz\<close>, the first run has no room and
  is left alone, the second has room and is rewritten, and both modes return 0.
\<close>

theorem later_match_clears_does_not_fit:
  "search_and_replace (heap_filled 0) (bytes_of ''ab'' @ [0] @ bytes_of ''ab'' @ [0, 0, 0])
     (bytes_of ''ab'') (bytes_of ''xyz'')
     = Some (bytes_of ''ab'' @ [0] @ bytes_of ''xyz'' @ [0, 0], 0)
   \<and> search_and_replace_exact (bytes_of ''ab'' @ [0] @ bytes_of ''ab'' @ [0, 0, 0])
     (bytes_of ''ab'') (bytes_of ''xyz'')
     = Some (bytes_of ''ab'' @ [0] @ bytes_of ''xyz'' @ [0, 0], 0)"
  by (simp add: sr_eval)

text \<open>
  Claim C3. In exact mode a run that is a proper prefix of the search string fails at
  its terminating zero, which puts the scanner in its skipping state; the skipping state
  then passes over the whole next run. The run \<open>abc\<close> after the run \<open>ab\<close> is equal to
  the search string and is not replaced; the result is 1 (not found).
\<close>

theorem exact_scan_skips_run_after_prefix:
  "search_and_replace_exact (bytes_of ''ab'' @ [0] @ bytes_of ''abc'' @ [0])
     (bytes_of ''abc'') (bytes_of ''xyz'')
     = Some (bytes_of ''ab'' @ [0] @ bytes_of ''abc'' @ [0], 1)"
  by (simp add: sr_eval)

text \<open>
  Claim C6. \<open>string_substitute\<close> writes a partial match only when the next byte breaks
  it, so a partial match at the end of the run is never copied to the scratch block and
  the buffer receives the byte the allocator left there. Replacing \<open>ab\<close> by \<open>ab\<close> in
  the run \<open>aba\<close> therefore changes the buffer.
\<close>

theorem self_replacement_changes_buffer:
  "search_and_replace (heap_filled 0) (bytes_of ''aba'' @ [0]) (bytes_of ''ab'') (bytes_of ''ab'')
     = Some (bytes_of ''ab'' @ [0, 0], 0)
   \<and> search_and_replace (heap_filled 63) (bytes_of ''aba'' @ [0]) (bytes_of ''ab'') (bytes_of ''ab'')
     = Some (bytes_of ''ab?'' @ [0], 0)"
  by (simp add: sr_eval)

section \<open>Properties of the navigators\<close>

declare strncmp.simps [simp del]
declare pe_section_loop.simps [simp del]



text \<open>The equations that evaluate the navigators on a concrete file.\<close>

lemmas pe_eval = pe_find_strings_section_def pe_section_loop.simps strncmp.simps fseek_def
  fread_def advance_and_read_def PE_SIGNATURE_def pe_file_def bytes_of_def Let_def


























text \<open>
  Claim C7. \<open>read_word\<close> chooses the width by the uninitialised local \<open>r\<close> and never
  looks at its \<open>class\<close> argument: the result is the same for every class, a call with
  class 1 (32-bit) reads eight bytes when \<open>r\<close> is not 1, and a call with class 2
  (64-bit) reads four bytes when \<open>r\<close> is 1.
\<close>

theorem read_word_width_ignores_class:
  "read_word f ptr cls r = read_word f ptr cls' r
   \<and> read_word \<lparr>f_bytes = [1, 2, 3, 4, 5, 6, 7, 8, 9], f_pos = 0\<rparr>
       [0, 0, 0, 0, 0, 0, 0, 0] 1 0
     = (1, [1, 2, 3, 4, 5, 6, 7, 8], \<lparr>f_bytes = [1, 2, 3, 4, 5, 6, 7, 8, 9], f_pos = 8\<rparr>)
   \<and> read_word \<lparr>f_bytes = [1, 2, 3, 4, 5, 6, 7, 8, 9], f_pos = 0\<rparr>
       [0, 0, 0, 0, 0, 0, 0, 0] 2 1
     = (1, [1, 2, 3, 4, 0, 0, 0, 0], \<lparr>f_bytes = [1, 2, 3, 4, 5, 6, 7, 8, 9], f_pos = 4\<rparr>)"
  by (simp add: read_word_def fread_def Let_def)




text \<open>
  Claim C9. The signature is compared with \<open>strncmp\<close>, which stops at the first zero
  byte of the two arrays: the fourth byte is never compared, and a header whose four
  bytes are \<open>P\<close>, \<open>E\<close>, 0, 1 is accepted as a PE signature.
\<close>

theorem pe_signature_fourth_byte_ignored:
  "strncmp [0x50, 0x45, 0, x] PE_SIGNATURE 4 = 0
   \<and> pe_find_strings_section
     \<lparr>f_bytes = pe_file [0x50, 0x45, 0, 1] (bytes_of ''.rdata'' @ [0, 0]) [0x10, 0, 0, 0]
        [0, 2, 0, 0], f_pos = 4\<rparr>
     (bytes_of ''.rdata'') = Success (0x200, 0x10)"
  by (simp add: pe_eval)

end
